theory Spec2Isabelle
  imports Main "HOL-Library.Word"
begin

unbundle bit_operations_syntax

section \<open>Public Radio firmware (Firmware/main.c): receiver control and persistence\<close>

text \<open>
  A shallow embedding of the parts of \<^verbatim>\<open>Firmware/main.c\<close> that drive the Si4702
  shadow registers, the CRC-protected EEPROM parameter block, the button gesture handler,
  the programming-packet reader and the boot sequence. The AVR is a 8-bit machine whose
  \<^verbatim>\<open>int\<close> is 16 bits wide: \<^verbatim>\<open>uint8_t\<close> is \<open>8 word\<close>, \<^verbatim>\<open>uint16_t\<close> and
  \<^verbatim>\<open>int\<close> are \<open>16 word\<close> (the latter read with \<open>sint\<close>).
\<close>

subsection \<open>The Si4702 register names and their byte offsets in the shadow array\<close>

text \<open>The enum \<^verbatim>\<open>si4702_register\<close>: each name stands for the byte offset of the register's
  high byte in \<^verbatim>\<open>shadow[32]\<close>, which starts with register 0xA.\<close>

datatype si4702_register =
    REGISTER_00 | REGISTER_01 | REGISTER_02 | REGISTER_03
  | REGISTER_04 | REGISTER_05 | REGISTER_06 | REGISTER_07
  | REGISTER_08 | REGISTER_09 | REGISTER_10 | REGISTER_11
  | REGISTER_12 | REGISTER_13 | REGISTER_14 | REGISTER_15

fun reg_offset :: "si4702_register \<Rightarrow> nat" where
  "reg_offset REGISTER_00 = 12"
| "reg_offset REGISTER_01 = 14"
| "reg_offset REGISTER_02 = 16"
| "reg_offset REGISTER_03 = 18"
| "reg_offset REGISTER_04 = 20"
| "reg_offset REGISTER_05 = 22"
| "reg_offset REGISTER_06 = 24"
| "reg_offset REGISTER_07 = 26"
| "reg_offset REGISTER_08 = 28"
| "reg_offset REGISTER_09 = 30"
| "reg_offset REGISTER_10 = 0"
| "reg_offset REGISTER_11 = 2"
| "reg_offset REGISTER_12 = 4"
| "reg_offset REGISTER_13 = 6"
| "reg_offset REGISTER_14 = 8"
| "reg_offset REGISTER_15 = 10"

text \<open>The logical register address (0x0 .. 0xF) a name stands for.\<close>

fun reg_addr :: "si4702_register \<Rightarrow> nat" where
  "reg_addr REGISTER_00 = 0"
| "reg_addr REGISTER_01 = 1"
| "reg_addr REGISTER_02 = 2"
| "reg_addr REGISTER_03 = 3"
| "reg_addr REGISTER_04 = 4"
| "reg_addr REGISTER_05 = 5"
| "reg_addr REGISTER_06 = 6"
| "reg_addr REGISTER_07 = 7"
| "reg_addr REGISTER_08 = 8"
| "reg_addr REGISTER_09 = 9"
| "reg_addr REGISTER_10 = 10"
| "reg_addr REGISTER_11 = 11"
| "reg_addr REGISTER_12 = 12"
| "reg_addr REGISTER_13 = 13"
| "reg_addr REGISTER_14 = 14"
| "reg_addr REGISTER_15 = 15"

subsection \<open>The shadow array and its accessors\<close>

text \<open>\<^verbatim>\<open>uint8_t shadow[32]\<close> is a list of 32 bytes; \<^verbatim>\<open>get_shadow_reg\<close> and
  \<^verbatim>\<open>set_shadow_reg\<close> read and write the big-endian pair at a register's offset.\<close>

type_synonym shadow_bank = "8 word list"

definition get_shadow_reg :: "shadow_bank \<Rightarrow> si4702_register \<Rightarrow> 16 word" where
  "get_shadow_reg sh reg =
     push_bit 8 (ucast (sh ! reg_offset reg)) OR ucast (sh ! (reg_offset reg + 1))"

definition set_shadow_reg :: "shadow_bank \<Rightarrow> si4702_register \<Rightarrow> 16 word \<Rightarrow> shadow_bank" where
  "set_shadow_reg sh reg v =
     (sh[reg_offset reg := ucast (drop_bit 8 v)])[reg_offset reg + 1 := ucast (v AND 0xff)]"

subsection \<open>EEPROM and the CRC of the parameter block\<close>

text \<open>
  The EEPROM is a byte store indexed by address. \<^verbatim>\<open>eeprom_read_byte\<close>,
  \<^verbatim>\<open>eeprom_write_byte\<close>, \<^verbatim>\<open>eeprom_read_word\<close> and \<^verbatim>\<open>eeprom_write_word\<close> are
  avr-libc's (\<^verbatim>\<open><avr/eeprom.h>\<close>), not part of the repository: a word is stored low
  byte first, as the AVR does.
\<close>

type_synonym eeprom_mem = "nat \<Rightarrow> 8 word"

definition eeprom_read_byte :: "eeprom_mem \<Rightarrow> nat \<Rightarrow> 8 word" where
  "eeprom_read_byte ee a = ee a"

definition eeprom_write_byte :: "eeprom_mem \<Rightarrow> nat \<Rightarrow> 8 word \<Rightarrow> eeprom_mem" where
  "eeprom_write_byte ee a v = ee(a := v)"

definition eeprom_read_word :: "eeprom_mem \<Rightarrow> nat \<Rightarrow> 16 word" where
  "eeprom_read_word ee a = push_bit 8 (ucast (ee (a + 1))) OR ucast (ee a)"

definition eeprom_write_word :: "eeprom_mem \<Rightarrow> nat \<Rightarrow> 16 word \<Rightarrow> eeprom_mem" where
  "eeprom_write_word ee a w = (ee(a := ucast w))(a + 1 := ucast (drop_bit 8 w))"

definition EEPROM_BAND :: nat where "EEPROM_BAND = 0"
definition EEPROM_DEEMPHASIS :: nat where "EEPROM_DEEMPHASIS = 1"
definition EEPROM_SPACING :: nat where "EEPROM_SPACING = 2"
definition EEPROM_CHANNEL :: nat where "EEPROM_CHANNEL = 3"
definition EEPROM_VOLUME :: nat where "EEPROM_VOLUME = 5"
definition EEPROM_CRC16 :: nat where "EEPROM_CRC16 = 14"
definition EEPROM_PARAM_BLOCK_SIZE :: nat where "EEPROM_PARAM_BLOCK_SIZE = 16"
definition EEPROM_WORKING :: nat where "EEPROM_WORKING = 0"
definition EEPROM_FACTORY :: nat where "EEPROM_FACTORY = 16"

text \<open>
  \<^verbatim>\<open>_crc16_update\<close> is avr-libc's (\<^verbatim>\<open><util/crc16.h>\<close>), not part of the repository.
  It is written here after the C equivalent given in the library's documentation:
  xor the byte into the low half, then eight times shift right by one, xoring with the
  polynomial 0xA001 when the bit shifted out was set.
\<close>

definition crc16_step :: "16 word \<Rightarrow> 16 word" where
  "crc16_step crc =
     (if crc AND 1 \<noteq> 0 then drop_bit 1 crc XOR 0xA001 else drop_bit 1 crc)"

fun crc16_loop :: "nat \<Rightarrow> 16 word \<Rightarrow> 16 word" where
  "crc16_loop 0 crc = crc"
| "crc16_loop (Suc n) crc = crc16_loop n (crc16_step crc)"

definition crc16_update :: "16 word \<Rightarrow> 8 word \<Rightarrow> 16 word" where
  "crc16_update crc a = crc16_loop 8 (crc XOR ucast a)"

text \<open>The loop of \<^verbatim>\<open>update_channel\<close> and of \<^verbatim>\<open>check_param_crc\<close>: the CRC of the
  EEPROM bytes at the addresses \<open>as\<close>, in that order, starting from \<open>crc\<close>.\<close>

definition crc_bytes :: "eeprom_mem \<Rightarrow> nat list \<Rightarrow> 16 word \<Rightarrow> 16 word" where
  "crc_bytes ee as crc = fold (\<lambda>a c. crc16_update c (eeprom_read_byte ee a)) as crc"

text \<open>\<^verbatim>\<open>check_param_crc(base)\<close>: 0 if the CRC of the 16 bytes at \<open>base\<close> is good.\<close>

definition check_param_crc :: "eeprom_mem \<Rightarrow> nat \<Rightarrow> 16 word" where
  "check_param_crc ee base = crc_bytes ee [base ..< base + EEPROM_PARAM_BLOCK_SIZE] 0"

subsection \<open>Machine state and observable effects\<close>

text \<open>
  What the program does to the outside world is recorded, in order, in a trace:
  writes to the LED timer and pin, busy-wait delays, TWI (I2C) transfers to the receiver
  chip, EEPROM writes, the reset line and the sleep instruction.
\<close>

datatype event =
    Ocr1b "8 word"
  | PwmOn
  | PwmOff
  | LedPin bool
  | DelayMs nat
  | TwiInit
  | TwiWrite "8 word list"
  | ResetHigh
  | EepromWriteByte nat "8 word"
  | EepromWriteWord nat "16 word"
  | DebugByte "8 word"
  | ButtonIntOn
  | DeepSleep

record state =
  shadow :: shadow_bank
  eeprom :: eeprom_mem
  currentLEDBrightness :: "8 word"
  trace :: "event list"

definition emit :: "event \<Rightarrow> state \<Rightarrow> state" where
  "emit e st = st\<lparr>trace := trace st @ [e]\<rparr>"

definition delay_ms :: "nat \<Rightarrow> state \<Rightarrow> state" where
  "delay_ms n st = emit (DelayMs n) st"

definition LED_PWM_on :: "state \<Rightarrow> state" where
  "LED_PWM_on st = emit PwmOn st"

definition LED_PWM_off :: "state \<Rightarrow> state" where
  "LED_PWM_off st = emit PwmOff st"

definition updateLEDcompensation :: "state \<Rightarrow> state" where
  "updateLEDcompensation st =
     (if currentLEDBrightness st > 0 then emit (Ocr1b (currentLEDBrightness st)) st else st)"

definition setLEDBrightness :: "8 word \<Rightarrow> state \<Rightarrow> state" where
  "setLEDBrightness b st =
     (let st1 = st\<lparr>currentLEDBrightness := b\<rparr>
      in if b = 0 then LED_PWM_off st1 else LED_PWM_on (updateLEDcompensation st1))"

text \<open>Writes to the EEPROM, recorded in the trace.\<close>

definition ee_write_byte :: "nat \<Rightarrow> 8 word \<Rightarrow> state \<Rightarrow> state" where
  "ee_write_byte a v st =
     emit (EepromWriteByte a v) (st\<lparr>eeprom := eeprom_write_byte (eeprom st) a v\<rparr>)"

definition ee_write_word :: "nat \<Rightarrow> 16 word \<Rightarrow> state \<Rightarrow> state" where
  "ee_write_word a w st =
     emit (EepromWriteWord a w) (st\<lparr>eeprom := eeprom_write_word (eeprom st) a w\<rparr>)"

definition shadow_set :: "si4702_register \<Rightarrow> 16 word \<Rightarrow> state \<Rightarrow> state" where
  "shadow_set reg v st = st\<lparr>shadow := set_shadow_reg (shadow st) reg v\<rparr>"

text \<open>
  \<^verbatim>\<open>si4702_write_registers(upto_reg)\<close>: one TWI write of
  \<^verbatim>\<open>upto_reg - REGISTER_02 + 2\<close> bytes (in \<^verbatim>\<open>unsigned\<close> arithmetic) of the shadow
  array from the offset of register 0x2 on. The program calls it with
  \<^verbatim>\<open>REGISTER_02\<close>, \<^verbatim>\<open>REGISTER_03\<close>, \<^verbatim>\<open>REGISTER_05\<close> and \<^verbatim>\<open>REGISTER_07\<close> only,
  where the bytes lie inside the array.
\<close>

definition write_count :: "si4702_register \<Rightarrow> nat" where
  "write_count upto_reg =
     unat ((of_nat (reg_offset upto_reg) :: 16 word) - of_nat (reg_offset REGISTER_02) + 2)"

definition si4702_write_registers :: "si4702_register \<Rightarrow> state \<Rightarrow> state" where
  "si4702_write_registers upto_reg st =
     emit (TwiWrite (take (write_count upto_reg) (drop (reg_offset REGISTER_02) (shadow st)))) st"

text \<open>\<^verbatim>\<open>debugBlinkByte\<close> bit-bangs a byte on the button pin; one event stands for it.\<close>

definition debugBlinkByte :: "8 word \<Rightarrow> state \<Rightarrow> state" where
  "debugBlinkByte d st = emit (DebugByte d) st"

definition debugBlink_once :: "state \<Rightarrow> state" where
  "debugBlink_once st = delay_ms 200 (emit (LedPin False) (delay_ms 10 (emit (LedPin True) st)))"

definition debugBlink :: "8 word \<Rightarrow> state \<Rightarrow> state" where
  "debugBlink b st = delay_ms 1000 ((debugBlink_once ^^ unat b) st)"

subsection \<open>Tuning and saving\<close>

definition tune_direct :: "16 word \<Rightarrow> state \<Rightarrow> state" where
  "tune_direct chan st =
     (let st1 = shadow_set REGISTER_03 (0x8000 OR 0x01ff) st;
          st2 = si4702_write_registers REGISTER_03 st1;
          st3 = delay_ms 160 st2;
          st4 = shadow_set REGISTER_03 chan st3
      in si4702_write_registers REGISTER_03 st4)"

text \<open>\<^verbatim>\<open>currentChanFromShadow\<close> masks the \<^emph>\<open>offset\<close> \<^verbatim>\<open>REGISTER_03\<close> with 0x1ff (which
  leaves 18), then reads the 16-bit register there.\<close>

definition get_shadow_at :: "shadow_bank \<Rightarrow> nat \<Rightarrow> 16 word" where
  "get_shadow_at sh off = push_bit 8 (ucast (sh ! off)) OR ucast (sh ! (off + 1))"

definition currentChanFromShadow :: "state \<Rightarrow> 16 word" where
  "currentChanFromShadow st =
     get_shadow_at (shadow st) (unat ((of_nat (reg_offset REGISTER_03) :: 16 word) AND 0x1ff))"

definition update_channel :: "16 word \<Rightarrow> state \<Rightarrow> state" where
  "update_channel channel st =
     (let st1 = ee_write_word EEPROM_CHANNEL channel st;
          crc = crc_bytes (eeprom st1) [EEPROM_WORKING ..< EEPROM_CRC16] 0
      in ee_write_word EEPROM_CRC16 crc st1)"

definition copy_factory_param :: "state \<Rightarrow> state" where
  "copy_factory_param st =
     fold (\<lambda>i s. ee_write_byte (EEPROM_WORKING + i)
                    (eeprom_read_byte (eeprom s) (EEPROM_FACTORY + i)) s)
          [0 ..< EEPROM_PARAM_BLOCK_SIZE] st"

text \<open>\<^verbatim>\<open>shutDown\<close> has an empty body in the source.\<close>

definition shutDown :: "8 word \<Rightarrow> state \<Rightarrow> state" where
  "shutDown blinkCount st = st"

definition DIAGNOSTIC_BLINK_BADEEPROM :: "8 word" where
  "DIAGNOSTIC_BLINK_BADEEPROM = 3"

subsection \<open>Receiver initialisation\<close>

definition BV :: "nat \<Rightarrow> 16 word" where
  "BV n = push_bit n 1"

definition REG_02_DSMUTE_BIT :: nat where "REG_02_DSMUTE_BIT = 15"
definition REG_02_DMUTE_BIT :: nat where "REG_02_DMUTE_BIT = 14"
definition REG_02_MONO_BIT :: nat where "REG_02_MONO_BIT = 13"
definition REG_02_ENABLE_BIT :: nat where "REG_02_ENABLE_BIT = 1"

text \<open>The value \<^verbatim>\<open>si4702_init\<close> stores to register 0x2 before it unmutes:
  \<^verbatim>\<open>_BV(REG_02_DMUTE_BIT) | (REG_02_MONO_BIT) | _BV(REG_02_ENABLE_BIT)\<close>.\<close>

definition unmute_value :: "16 word" where
  "unmute_value = BV REG_02_DMUTE_BIT OR of_nat REG_02_MONO_BIT OR BV REG_02_ENABLE_BIT"

definition reg05_value :: "eeprom_mem \<Rightarrow> 16 word" where
  "reg05_value ee =
     push_bit 6 (ucast (eeprom_read_byte ee EEPROM_BAND AND 0x03)) OR
     push_bit 4 (ucast (eeprom_read_byte ee EEPROM_SPACING AND 0x03)) OR
     ucast (eeprom_read_byte ee EEPROM_VOLUME AND 0x0f)"

definition si4702_init :: "state \<Rightarrow> state" where
  "si4702_init st =
     (let s1 = emit ResetHigh st;
          s2 = delay_ms 1 s1;
          s3 = emit TwiInit s2;
          s4 = shadow_set REGISTER_07 0x8100 s3;
          s5 = si4702_write_registers REGISTER_07 s4;
          s6 = delay_ms 600 s5;
          s7 = shadow_set REGISTER_02 (BV REG_02_ENABLE_BIT) s6;
          s8 = si4702_write_registers REGISTER_02 s7;
          s9 = delay_ms 110 s8;
          s10 = shadow_set REGISTER_04
                  (get_shadow_reg (shadow s9) REGISTER_04 OR
                   (if eeprom_read_byte (eeprom s9) EEPROM_DEEMPHASIS \<noteq> 0 then 0x0800 else 0x0000))
                  s9;
          s11 = shadow_set REGISTER_05 (reg05_value (eeprom s10)) s10;
          s12 = si4702_write_registers REGISTER_05 s11;
          chan = eeprom_read_word (eeprom s12) EEPROM_CHANNEL;
          s13 = debugBlinkByte (ucast (chan div 0x100)) s12;
          s14 = debugBlinkByte (ucast (chan AND 0xff)) s13;
          s15 = shadow_set REGISTER_03 (0x8000 OR chan) s14;
          s16 = si4702_write_registers REGISTER_03 s15;
          s17 = delay_ms 100 s16;
          s18 = shadow_set REGISTER_02 unmute_value s17;
          s19 = shadow_set REGISTER_03 chan s18
      in si4702_write_registers REGISTER_03 s19)"

subsection \<open>The button gesture handler\<close>

text \<open>
  The level of the button pin is an input: the list holds what the successive calls of
  \<^verbatim>\<open>buttonDown()\<close> return (\<open>True\<close>: pressed). A loop that needs a sample when the list
  is used up has not come to an end within the given input: the result is \<open>None\<close>.
\<close>

definition LONG_PRESS_MS :: "16 word" where "LONG_PRESS_MS = 2000"
definition BUTTON_DEBOUNCE_MS :: nat where "BUTTON_DEBOUNCE_MS = 50"

text \<open>\<^verbatim>\<open>while (countdown && buttonDown()) { _delay_ms(1); countdown--; }\<close>: the countdown
  is tested first, and the pin is sampled only when it is not zero.\<close>

fun timing_loop :: "16 word \<Rightarrow> bool list \<Rightarrow> state \<Rightarrow> (16 word \<times> bool list \<times> state) option" where
  "timing_loop countdown [] st = (if countdown = 0 then Some (countdown, [], st) else None)"
| "timing_loop countdown (b # bs) st =
     (if countdown = 0 then Some (countdown, b # bs, st)
      else if b then timing_loop (countdown - 1) bs (delay_ms 1 st)
      else Some (countdown, bs, st))"

text \<open>\<^verbatim>\<open>while (buttonDown());\<close>\<close>

fun wait_release :: "bool list \<Rightarrow> bool list option" where
  "wait_release [] = None"
| "wait_release (b # bs) = (if b then wait_release bs else Some bs)"

text \<open>The channel a short press tunes to: one up, back to 0 above \<^verbatim>\<open>1080-760\<close>.\<close>

definition next_channel :: "16 word \<Rightarrow> 16 word" where
  "next_channel currentChan =
     (let c = currentChan + 1 in if c > 1080 - 760 then 0 else c)"

definition short_press :: "16 word \<Rightarrow> state \<Rightarrow> state" where
  "short_press currentChan st = tune_direct (next_channel currentChan) st"

definition long_press :: "16 word \<Rightarrow> state \<Rightarrow> state" where
  "long_press currentChan st =
     setLEDBrightness 0 (delay_ms 500 (update_channel currentChan (setLEDBrightness 255 st)))"

definition handleButtonDown :: "bool list \<Rightarrow> state \<Rightarrow> (bool list \<times> state) option" where
  "handleButtonDown samples st =
     (let s1 = setLEDBrightness 0 st;
          s2 = delay_ms BUTTON_DEBOUNCE_MS s1;
          currentChan = currentChanFromShadow s2
      in case timing_loop LONG_PRESS_MS samples s2 of
           None \<Rightarrow> None
         | Some (countdown, bs, s3) \<Rightarrow>
             (let s4 = (if countdown \<noteq> 0 then short_press currentChan s3
                        else long_press currentChan s3)
              in case wait_release bs of
                   None \<Rightarrow> None
                 | Some bs' \<Rightarrow> Some (bs', delay_ms BUTTON_DEBOUNCE_MS s4)))"

subsection \<open>Programming packets\<close>

text \<open>
  \<^verbatim>\<open>readPbyte\<close> (declared in \<^verbatim>\<open>VccProg.h\<close>) is not among the sources. What its
  successive calls return is an input here: a list of C \<^verbatim>\<open>int\<close>s, negative for an
  error, the received byte otherwise. A call when the list is used up does not return.
\<close>

fun readPbyte :: "16 word list \<Rightarrow> (16 word \<times> 16 word list) option" where
  "readPbyte [] = None"
| "readPbyte (d # rx) = Some (d, rx)"

definition readProgrammingPacket ::
    "16 word list \<Rightarrow> state \<Rightarrow> (16 word \<times> 16 word list \<times> state) option" where
  "readProgrammingPacket rx st =
     (case readPbyte rx of None \<Rightarrow> None | Some (d1, rx1) \<Rightarrow>
      if d1 <s 0 then Some (d1, rx1, st) else
      let crc1 = crc16_update 0 (ucast d1);
          channel1 = push_bit 8 d1
      in
     (case readPbyte rx1 of None \<Rightarrow> None | Some (d2, rx2) \<Rightarrow>
      if d2 <s 0 then Some (d2, rx2, st) else
      let crc = crc16_update crc1 (ucast d2);
          channel = channel1 OR d2
      in
     (case readPbyte rx2 of None \<Rightarrow> None | Some (d3, rx3) \<Rightarrow>
      if d3 <s 0 then Some (d3, rx3, st) else
      let crc_rec1 = push_bit 8 d3 in
     (case readPbyte rx3 of None \<Rightarrow> None | Some (d4, rx4) \<Rightarrow>
      if d4 <s 0 then Some (d4, rx4, st) else
      let crc_rec = crc_rec1 OR d4 in
      if crc \<noteq> crc_rec then Some (- 1, rx4, debugBlink 1 st)
      else Some (0, rx4, debugBlink 2 (update_channel channel (delay_ms 50 st)))))))"

subsection \<open>Boot\<close>

text \<open>
  \<^verbatim>\<open>main\<close> up to the return of \<^verbatim>\<open>si4702_init\<close>. \<^verbatim>\<open>VCC_GT(LOW_BATTERY_VOLTAGE)\<close> and
  \<^verbatim>\<open>programmingVoltagePresent()\<close> (from \<^verbatim>\<open>VccADC.h\<close> and \<^verbatim>\<open>VccProg.h\<close>, not among
  the sources) are the inputs \<open>vcc_gt\<close> and \<open>prog\<close>. With a low battery the program
  sleeps with no wake-up source armed; with the programming voltage it reads packets for
  ever; otherwise it goes on to the breathing loop, which is where the model stops.
  The writes that set up port directions, the ADC and the PWM timer are not recorded as
  events; \<^verbatim>\<open>initButton\<close> samples the pin once and enables the pin-change interrupt.
\<close>

datatype outcome = Halted state | ProgrammingMode state | Running state

definition low_battery_blink :: "state \<Rightarrow> state" where
  "low_battery_blink st =
     delay_ms 900 (emit (LedPin False) (delay_ms 100 (emit (LedPin True) st)))"

definition deepSleep :: "state \<Rightarrow> state" where
  "deepSleep st = emit DeepSleep st"

definition factory_blink :: "state \<Rightarrow> state" where
  "factory_blink st =
     delay_ms 900 (setLEDBrightness 0 (delay_ms 100 (setLEDBrightness 255
       (delay_ms 100 (setLEDBrightness 0 (delay_ms 100 (setLEDBrightness 255 st)))))))"

fun factory_blink_loop :: "bool list \<Rightarrow> state \<Rightarrow> (bool list \<times> state) option" where
  "factory_blink_loop [] st = None"
| "factory_blink_loop (b # bs) st =
     (if b then factory_blink_loop bs (factory_blink st) else Some (bs, st))"

text \<open>\<^verbatim>\<open>if (!check_param_crc(EEPROM_WORKING)) { shutDown(...); }  si4702_init();\<close>\<close>

definition check_and_init :: "state \<Rightarrow> state" where
  "check_and_init st =
     (let s1 = (if check_param_crc (eeprom st) EEPROM_WORKING = 0
                then shutDown DIAGNOSTIC_BLINK_BADEEPROM st else st)
      in si4702_init s1)"

definition main :: "bool \<Rightarrow> bool \<Rightarrow> bool list \<Rightarrow> state \<Rightarrow> (bool list \<times> outcome) option" where
  "main vcc_gt prog samples st =
     (if \<not> vcc_gt then Some (samples, Halted (deepSleep ((low_battery_blink ^^ 120) st)))
      else if prog then Some (samples, ProgrammingMode st)
      else
        let s1 = LED_PWM_on st in
        case samples of
          [] \<Rightarrow> None
        | b # bs \<Rightarrow>
            let s2 = emit ButtonIntOn s1 in
            (case (if b then (case factory_blink_loop bs s2 of
                                None \<Rightarrow> None
                              | Some (bs', s3) \<Rightarrow> Some (bs', copy_factory_param s3))
                   else Some (bs, s2)) of
               None \<Rightarrow> None
             | Some (bs', s4) \<Rightarrow> Some (bs', Running (check_and_init s4))))"

text \<open>The state at reset: the shadow array and the brightness are zero-initialised
  globals; the EEPROM holds whatever was stored.\<close>

definition boot_state :: "eeprom_mem \<Rightarrow> state" where
  "boot_state ee = \<lparr>shadow = replicate 32 0, eeprom = ee, currentLEDBrightness = 0, trace = []\<rparr>"

text \<open>Inputs for the concrete runs below: an EEPROM that holds zero in every byte, and the
  state after reset with a given value in shadow register 0x3 (as \<^verbatim>\<open>si4702_init\<close> and
  \<^verbatim>\<open>tune_direct\<close> leave the tuned channel there).\<close>

definition blank_eeprom :: eeprom_mem where
  "blank_eeprom = (\<lambda>a. 0)"

definition tuned_state :: "16 word \<Rightarrow> state" where
  "tuned_state chan = shadow_set REGISTER_03 chan (boot_state blank_eeprom)"

text \<open>A working block whose stored CRC is wrong: all bytes zero, but for the high byte of
  the CRC word.\<close>

definition bad_crc_eeprom :: eeprom_mem where
  "bad_crc_eeprom = blank_eeprom(15 := 1)"

section \<open>Properties\<close>

subsection \<open>The CRC of the parameter block\<close>

text \<open>A CRC whose low byte is fed back into it is shifted down by eight bits, and feeding
  the remaining byte gives zero: a block that ends with its own CRC, low byte first,
  checks to zero.\<close>

lemma crc16_step_even: "\<not> bit crc 0 \<Longrightarrow> crc16_step crc = drop_bit 1 crc"
  by (simp add: crc16_step_def and_one_eq bit_0 mod_2_eq_odd)

lemma crc16_loop_shift:
  "(\<And>k. k < n \<Longrightarrow> \<not> bit crc k) \<Longrightarrow> crc16_loop n crc = drop_bit n crc"
proof (induction n arbitrary: crc)
  case 0
  then show ?case by simp
next
  case (Suc n)
  have b0: "\<not> bit crc 0" using Suc.prems [of 0] by simp
  have "crc16_loop n (drop_bit 1 crc) = drop_bit n (drop_bit 1 crc)"
  proof (rule Suc.IH)
    fix k assume "k < n"
    then have "\<not> bit crc (Suc k)" using Suc.prems [of "Suc k"] by simp
    then show "\<not> bit (drop_bit 1 crc) k" by (simp add: bit_drop_bit_eq)
  qed
  then show ?case using b0 by (simp add: crc16_step_even drop_bit_drop_bit)
qed

lemma crc16_update_low: "crc16_update crc (ucast crc) = drop_bit 8 crc"
proof -
  let ?x = "crc XOR ucast (ucast crc :: 8 word)"
  have lo: "\<And>k. k < 8 \<Longrightarrow> \<not> bit ?x k"
    by (simp add: bit_simps)
  have "drop_bit 8 ?x = drop_bit 8 crc"
    by (rule bit_word_eqI) (auto simp add: bit_simps)
  then show ?thesis
    using crc16_loop_shift [of 8 ?x] lo by (simp add: crc16_update_def)
qed

lemma crc16_loop_zero: "crc16_loop n 0 = 0"
  by (induction n) (simp_all add: crc16_step_def)

lemma crc16_update_high: "crc16_update (drop_bit 8 crc) (ucast (drop_bit 8 crc)) = 0"
proof -
  have "drop_bit 8 crc XOR ucast (ucast (drop_bit 8 crc) :: 8 word) = 0"
    by (rule bit_word_eqI) (auto simp add: bit_simps dest: bit_imp_le_length)
  then show ?thesis by (simp add: crc16_update_def crc16_loop_zero)
qed

lemma crc_bytes_cong:
  "(\<And>a. a \<in> set as \<Longrightarrow> ee a = ee' a) \<Longrightarrow> crc_bytes ee as crc = crc_bytes ee' as crc"
  unfolding crc_bytes_def eeprom_read_byte_def
  by (induction as arbitrary: crc) simp_all

lemma crc_bytes_append:
  "crc_bytes ee (as @ bs) crc = crc_bytes ee bs (crc_bytes ee as crc)"
  by (simp add: crc_bytes_def)


lemma word16_of_bytes: "push_bit 8 (ucast (ucast (drop_bit 8 w) :: 8 word)) OR ucast (ucast w :: 8 word) = (w :: 16 word)"
  by (rule bit_word_eqI) (auto simp add: bit_simps)

lemma eeprom_read_write_word: "eeprom_read_word (eeprom_write_word ee a w) a = w"
  by (simp add: eeprom_read_word_def eeprom_write_word_def word16_of_bytes)

lemma eeprom_update_channel:
  "eeprom (update_channel channel st) =
     eeprom_write_word (eeprom_write_word (eeprom st) EEPROM_CHANNEL channel) EEPROM_CRC16
       (crc_bytes (eeprom_write_word (eeprom st) EEPROM_CHANNEL channel)
          [EEPROM_WORKING ..< EEPROM_CRC16] 0)"
  by (simp add: update_channel_def ee_write_word_def emit_def Let_def)

lemma crc_bytes_write_crc:
  "crc_bytes (eeprom_write_word ee EEPROM_CRC16 w) [EEPROM_WORKING ..< EEPROM_CRC16] c =
   crc_bytes ee [EEPROM_WORKING ..< EEPROM_CRC16] c"
  by (rule crc_bytes_cong) (simp add: eeprom_write_word_def EEPROM_CRC16_def)

lemma upt_16_split: "[0 ..< 16] = [0 ..< 14] @ [14, 15]"
  by (simp add: upt_rec)

lemma check_after_crc_write:
  "check_param_crc
     (eeprom_write_word ee EEPROM_CRC16 (crc_bytes ee [EEPROM_WORKING ..< EEPROM_CRC16] 0))
     EEPROM_WORKING = 0"
proof -
  let ?crc = "crc_bytes ee [EEPROM_WORKING ..< EEPROM_CRC16] 0"
  let ?ee = "eeprom_write_word ee EEPROM_CRC16 ?crc"
  have pre: "crc_bytes ?ee [0 ..< 14] 0 = ?crc"
    using crc_bytes_write_crc [of ee ?crc 0] by (simp add: EEPROM_WORKING_def EEPROM_CRC16_def)
  have "check_param_crc ?ee EEPROM_WORKING = crc_bytes ?ee [14, 15] (crc_bytes ?ee [0 ..< 14] 0)"
    by (simp add: check_param_crc_def EEPROM_WORKING_def EEPROM_PARAM_BLOCK_SIZE_def
        upt_16_split crc_bytes_append)
  also have "\<dots> = crc_bytes ?ee [14, 15] ?crc"
    by (simp only: pre)
  also have "\<dots> = crc16_update (crc16_update ?crc (ucast ?crc)) (ucast (drop_bit 8 ?crc))"
    by (simp add: crc_bytes_def eeprom_read_byte_def eeprom_write_word_def EEPROM_CRC16_def)
  also have "\<dots> = 0"
    by (simp add: crc16_update_low crc16_update_high)
  finally show ?thesis .
qed

lemma eeprom_channel_after_update:
  "eeprom_read_word (eeprom (update_channel channel st)) EEPROM_CHANNEL = channel"
  by (simp add: eeprom_update_channel eeprom_read_word_def eeprom_write_word_def
      EEPROM_CHANNEL_def EEPROM_CRC16_def word16_of_bytes)

text \<open>
  C4. For every 16-bit channel and every prior EEPROM contents, after
  \<^verbatim>\<open>update_channel\<close> the CRC word stored at the end of the working block equals the CRC
  recomputed over the 14 bytes before it, \<^verbatim>\<open>check_param_crc\<close> over the 16 bytes of the
  working block returns 0 (valid), and the channel field holds the channel given.
\<close>

theorem update_channel_crc_valid:
  "eeprom_read_word (eeprom (update_channel channel st)) EEPROM_CRC16 =
     crc_bytes (eeprom (update_channel channel st)) [EEPROM_WORKING ..< EEPROM_CRC16] 0 \<and>
   check_param_crc (eeprom (update_channel channel st)) EEPROM_WORKING = 0 \<and>
   eeprom_read_word (eeprom (update_channel channel st)) EEPROM_CHANNEL = channel"
proof -
  have "eeprom_read_word (eeprom (update_channel channel st)) EEPROM_CRC16 =
      crc_bytes (eeprom (update_channel channel st)) [EEPROM_WORKING ..< EEPROM_CRC16] 0"
    by (simp add: eeprom_update_channel eeprom_read_write_word crc_bytes_write_crc)
  moreover have "check_param_crc (eeprom (update_channel channel st)) EEPROM_WORKING = 0"
    by (simp add: eeprom_update_channel check_after_crc_write)
  ultimately show ?thesis
    by (simp add: eeprom_channel_after_update)
qed

subsection \<open>The shadow registers\<close>

text \<open>The offsets of the sixteen registers are even, two apart at least, and inside the
  array; they follow the read order of the chip, which starts at register 0xA.\<close>

lemma reg_offset_even: "even (reg_offset r)"
  by (cases r) simp_all

lemma reg_offset_bound: "reg_offset r + 1 < 32"
  by (cases r) simp_all

lemma reg_offset_inj: "reg_offset r = reg_offset r' \<Longrightarrow> r = r'"
  by (cases r; cases r'; simp)

lemma reg_offset_layout: "reg_offset r = 2 * ((reg_addr r + 6) mod 16)"
  by (cases r) simp_all

lemma reg_offset_apart:
  assumes "r' \<noteq> r"
  shows "reg_offset r' \<noteq> reg_offset r" "reg_offset r' \<noteq> reg_offset r + 1"
    "reg_offset r' + 1 \<noteq> reg_offset r" "reg_offset r' + 1 \<noteq> reg_offset r + 1"
proof -
  show a: "reg_offset r' \<noteq> reg_offset r" using assms reg_offset_inj by blast
  show "reg_offset r' \<noteq> reg_offset r + 1"
    using reg_offset_even [of r] reg_offset_even [of r'] by (metis even_plus_one_iff)
  show "reg_offset r' + 1 \<noteq> reg_offset r"
    using reg_offset_even [of r] reg_offset_even [of r'] by (metis even_plus_one_iff)
  show "reg_offset r' + 1 \<noteq> reg_offset r + 1" using a by simp
qed

lemma low_byte_mask: "(ucast ((v :: 16 word) AND 0xff) :: 8 word) = ucast v"
proof -
  have m: "(0xff :: 16 word) = mask 8" by (simp add: mask_eq_exp_minus_1)
  show ?thesis unfolding m by (rule bit_word_eqI) (simp add: bit_simps)
qed

lemma word16_split: "push_bit 8 (ucast (ucast (drop_bit 8 v) :: 8 word)) OR ucast (ucast (v AND 0xff) :: 8 word) = (v :: 16 word)"
  unfolding low_byte_mask by (rule bit_word_eqI) (auto simp add: bit_simps)

lemma get_set_shadow_reg:
  "length sh = 32 \<Longrightarrow> get_shadow_reg (set_shadow_reg sh r v) r = v"
  using reg_offset_bound [of r]
  by (simp add: get_shadow_reg_def set_shadow_reg_def word16_split)

lemma set_shadow_reg_other:
  "r' \<noteq> r \<Longrightarrow> set_shadow_reg sh r v ! reg_offset r' = sh ! reg_offset r' \<and>
     set_shadow_reg sh r v ! (reg_offset r' + 1) = sh ! (reg_offset r' + 1)"
  using reg_offset_apart [of r' r]
  by (simp add: set_shadow_reg_def nth_list_update)

text \<open>
  C8. For every register name (logical address 0x0 .. 0xF) and every 16-bit value \<open>v\<close>,
  \<^verbatim>\<open>get_shadow_reg\<close> after \<^verbatim>\<open>set_shadow_reg\<close> at the same register returns \<open>v\<close>, and both
  bytes (hence the value) of every other register are unchanged.
\<close>

theorem shadow_reg_round_trip:
  "length sh = 32 \<Longrightarrow>
     get_shadow_reg (set_shadow_reg sh r v) r = v \<and>
     length (set_shadow_reg sh r v) = 32 \<and>
     (\<forall>r'. r' \<noteq> r \<longrightarrow>
        set_shadow_reg sh r v ! reg_offset r' = sh ! reg_offset r' \<and>
        set_shadow_reg sh r v ! (reg_offset r' + 1) = sh ! (reg_offset r' + 1) \<and>
        get_shadow_reg (set_shadow_reg sh r v) r' = get_shadow_reg sh r')"
  using get_set_shadow_reg [of sh r v] set_shadow_reg_other [of _ r sh v]
  by (simp add: get_shadow_reg_def set_shadow_reg_def)

text \<open>The round trip at register 0x3 with the value 0x1234, register 0x2 untouched.\<close>

theorem shadow_reg_round_trip_witness:
  "length (replicate 32 (0 :: 8 word)) = 32 \<and>
   get_shadow_reg (set_shadow_reg (replicate 32 0) REGISTER_03 0x1234) REGISTER_03 = 0x1234 \<and>
   set_shadow_reg (replicate 32 0) REGISTER_03 0x1234 ! reg_offset REGISTER_02 = 0 \<and>
   set_shadow_reg (replicate 32 0) REGISTER_03 0x1234 ! (reg_offset REGISTER_02 + 1) = 0 \<and>
   get_shadow_reg (set_shadow_reg (replicate 32 0) REGISTER_03 0x1234) REGISTER_02 = 0"
proof -
  have len: "length (replicate 32 (0 :: 8 word)) = 32" by simp
  have ne: "REGISTER_02 \<noteq> REGISTER_03" by simp
  note t = shadow_reg_round_trip [OF len, of REGISTER_03 "0x1234"]
  from t have a: "get_shadow_reg (set_shadow_reg (replicate 32 0) REGISTER_03 0x1234) REGISTER_03 = 0x1234"
    by (rule conjunct1)
  from t ne have b:
    "set_shadow_reg (replicate 32 0) REGISTER_03 0x1234 ! reg_offset REGISTER_02 =
       replicate 32 0 ! reg_offset REGISTER_02 \<and>
     set_shadow_reg (replicate 32 0) REGISTER_03 0x1234 ! (reg_offset REGISTER_02 + 1) =
       replicate 32 0 ! (reg_offset REGISTER_02 + 1) \<and>
     get_shadow_reg (set_shadow_reg (replicate 32 0) REGISTER_03 0x1234) REGISTER_02 =
       get_shadow_reg (replicate 32 0) REGISTER_02"
    by blast
  have c: "get_shadow_reg (replicate 32 0) REGISTER_02 = 0"
    by (simp add: get_shadow_reg_def)
  from a b c len show ?thesis by simp
qed

subsection \<open>Evaluating the CRC of a concrete block\<close>

text \<open>For a run on given bytes, the loops are unrolled first and the CRC steps are then
  computed from the inside out.\<close>

lemma crc16_step_div: "crc16_step c = (if odd c then (c div 2) XOR 0xA001 else c div 2)"
  by (simp add: crc16_step_def and_one_eq mod_2_eq_odd drop_bit_Suc)

lemma crc16_loop_8:
  "crc16_loop 8 c = crc16_step (crc16_step (crc16_step (crc16_step
     (crc16_step (crc16_step (crc16_step (crc16_step c)))))))"
  by (simp add: eval_nat_numeral)

lemma upt_0_14: "[0 ..< 14] = [0, 1, 2, 3, 4, 5, 6, 7, 8, 9, 10, 11, 12, 13]"
  by (simp add: upt_rec)

lemma upt_0_16: "[0 ..< 16] = [0, 1, 2, 3, 4, 5, 6, 7, 8, 9, 10, 11, 12, 13, 14, 15]"
  by (simp add: upt_rec)

lemmas crc_unroll = crc_bytes_def eeprom_read_byte_def eeprom_write_word_def eeprom_write_byte_def
  check_param_crc_def blank_eeprom_def EEPROM_CHANNEL_def EEPROM_WORKING_def EEPROM_CRC16_def
  EEPROM_PARAM_BLOCK_SIZE_def upt_0_14 upt_0_16

lemmas crc_eval = crc16_update_def crc16_loop_8 crc16_step_div

lemma crc_51: "crc_bytes (eeprom_write_word blank_eeprom EEPROM_CHANNEL 51) [EEPROM_WORKING ..< EEPROM_CRC16] 0 = 17648"
  apply (simp add: crc_unroll)
  apply (simp add: crc_eval)
  done


subsection \<open>The button gesture handler\<close>

text \<open>Fields of the state after the primitive operations, and the two ways the timing loop
  ends: the button held for all 2000 samples, or released at an earlier one.\<close>

lemmas state_ops =
  emit_def delay_ms_def LED_PWM_on_def LED_PWM_off_def updateLEDcompensation_def
  setLEDBrightness_def ee_write_byte_def ee_write_word_def shadow_set_def
  si4702_write_registers_def debugBlinkByte_def

lemma delay_ms_funpow:
  "(delay_ms n ^^ k) st = st\<lparr>trace := trace st @ replicate k (DelayMs n)\<rparr>"
proof (induction k arbitrary: st)
  case 0
  then show ?case by simp
next
  case (Suc k)
  show ?case
    by (simp add: funpow_swap1 Suc.IH) (simp add: delay_ms_def emit_def replicate_append_same)
qed

lemma funpow_delay_fields:
  "shadow ((delay_ms n ^^ k) st) = shadow st"
  "eeprom ((delay_ms n ^^ k) st) = eeprom st"
  "trace ((delay_ms n ^^ k) st) = trace st @ replicate k (DelayMs n)"
  by (simp_all add: delay_ms_funpow)

lemma delay_ms_fields:
  "shadow (delay_ms n st) = shadow st"
  "eeprom (delay_ms n st) = eeprom st"
  "trace (delay_ms n st) = trace st @ [DelayMs n]"
  by (simp_all add: delay_ms_def emit_def)

lemma led_off_fields:
  "shadow (setLEDBrightness 0 st) = shadow st"
  "eeprom (setLEDBrightness 0 st) = eeprom st"
  "trace (setLEDBrightness 0 st) = trace st @ [PwmOff]"
  by (simp_all add: state_ops)

lemmas pre_press_fields = funpow_delay_fields delay_ms_fields led_off_fields

lemma timing_loop_zero: "timing_loop 0 bs st = Some (0, bs, st)"
  by (cases bs) simp_all

lemma timing_loop_down:
  "k \<le> unat c \<Longrightarrow>
     timing_loop c (replicate k True @ bs) st =
     timing_loop (c - of_nat k) bs ((delay_ms 1 ^^ k) st)"
proof (induction k arbitrary: c st)
  case 0
  then show ?case by simp
next
  case (Suc k)
  from Suc.prems have nz: "c \<noteq> 0" by (auto simp: unat_eq_0)
  then have "unat (c - 1) = unat c - 1" by (simp add: unat_minus_one)
  with Suc.prems have "k \<le> unat (c - 1)" by simp
  from Suc.IH [OF this] nz show ?case
    by (simp add: funpow_swap1 diff_diff_eq add.commute)
qed

lemma currentChanFromShadow_reg03:
  "currentChanFromShadow st = get_shadow_reg (shadow st) REGISTER_03"
  by (simp add: currentChanFromShadow_def get_shadow_at_def get_shadow_reg_def)

lemma wait_release_held: "wait_release (replicate j True @ False # rest) = Some rest"
  by (induction j) simp_all

lemma handleButtonDown_long:
  "handleButtonDown (replicate 2000 True @ bs) st =
     (case wait_release bs of
        None \<Rightarrow> None
      | Some bs' \<Rightarrow>
          Some (bs', delay_ms 50 (long_press (get_shadow_reg (shadow st) REGISTER_03)
                  ((delay_ms 1 ^^ 2000) (delay_ms 50 (setLEDBrightness 0 st))))))"
proof -
  have "timing_loop LONG_PRESS_MS (replicate 2000 True @ bs) (delay_ms 50 (setLEDBrightness 0 st)) =
        Some (0, bs, (delay_ms 1 ^^ 2000) (delay_ms 50 (setLEDBrightness 0 st)))"
    using timing_loop_down [of 2000 LONG_PRESS_MS bs]
    by (simp add: LONG_PRESS_MS_def timing_loop_zero)
  moreover have "currentChanFromShadow (delay_ms 50 (setLEDBrightness 0 st)) =
      get_shadow_reg (shadow st) REGISTER_03"
    by (simp add: currentChanFromShadow_reg03 state_ops)
  ultimately show ?thesis
    by (simp add: handleButtonDown_def BUTTON_DEBOUNCE_MS_def Let_def split: option.split)
qed

lemma handleButtonDown_short:
  assumes "k < 2000"
  shows "handleButtonDown (replicate k True @ False # bs) st =
     (case wait_release bs of
        None \<Rightarrow> None
      | Some bs' \<Rightarrow>
          Some (bs', delay_ms 50 (short_press (get_shadow_reg (shadow st) REGISTER_03)
                  ((delay_ms 1 ^^ k) (delay_ms 50 (setLEDBrightness 0 st))))))"
proof -
  have le: "k \<le> unat LONG_PRESS_MS" using assms by (simp add: LONG_PRESS_MS_def)
  have "unat (LONG_PRESS_MS - of_nat k) = 2000 - k"
    using assms by (simp add: LONG_PRESS_MS_def unat_sub_if' unat_of_nat word_le_nat_alt)
  then have nz: "LONG_PRESS_MS - of_nat k \<noteq> 0"
    using assms by (metis unat_0 zero_less_diff less_numeral_extra(3))
  have "timing_loop LONG_PRESS_MS (replicate k True @ False # bs) (delay_ms 50 (setLEDBrightness 0 st)) =
        Some (LONG_PRESS_MS - of_nat k, bs, (delay_ms 1 ^^ k) (delay_ms 50 (setLEDBrightness 0 st)))"
    using timing_loop_down [OF le] nz by simp
  moreover have "currentChanFromShadow (delay_ms 50 (setLEDBrightness 0 st)) =
      get_shadow_reg (shadow st) REGISTER_03"
    by (simp add: currentChanFromShadow_reg03 state_ops)
  ultimately show ?thesis
    using nz by (simp add: handleButtonDown_def BUTTON_DEBOUNCE_MS_def Let_def split: option.split)
qed

lemma trace_long_press:
  "trace (long_press chan st) =
     trace st @ [Ocr1b 255, PwmOn, EepromWriteWord EEPROM_CHANNEL chan,
       EepromWriteWord EEPROM_CRC16
         (crc_bytes (eeprom_write_word (eeprom st) EEPROM_CHANNEL chan)
            [EEPROM_WORKING ..< EEPROM_CRC16] 0),
       DelayMs 500, PwmOff]"
  by (simp add: long_press_def update_channel_def state_ops Let_def)

lemma shadow_long_press: "shadow (long_press chan st) = shadow st"
  by (simp add: long_press_def update_channel_def state_ops Let_def)

lemma eeprom_long_press: "eeprom (long_press chan st) = eeprom (update_channel chan st)"
  by (simp add: long_press_def update_channel_def state_ops Let_def)

lemma long_press_result_trace:
  "trace (delay_ms 50 (long_press c ((delay_ms 1 ^^ 2000) (delay_ms 50 (setLEDBrightness 0 st))))) =
     trace st @ [PwmOff, DelayMs 50] @ replicate 2000 (DelayMs 1) @
       [Ocr1b 255, PwmOn, EepromWriteWord EEPROM_CHANNEL c,
        EepromWriteWord EEPROM_CRC16
          (crc_bytes (eeprom_write_word (eeprom st) EEPROM_CHANNEL c)
             [EEPROM_WORKING ..< EEPROM_CRC16] 0),
        DelayMs 500, PwmOff, DelayMs 50]"
  by (simp add: delay_ms_fields trace_long_press pre_press_fields)

lemma shadow_tune_direct:
  "shadow (tune_direct chan st) =
     set_shadow_reg (set_shadow_reg (shadow st) REGISTER_03 0x81ff) REGISTER_03 chan"
  by (simp add: tune_direct_def state_ops Let_def)

lemma length_set_shadow_reg: "length (set_shadow_reg sh r v) = length sh"
  by (simp add: set_shadow_reg_def)

lemma next_channel_cases:
  assumes "unat c \<le> 320"
  shows "next_channel c = (if c = 320 then 0 else c + 1)"
proof (cases "c = 320")
  case True
  then show ?thesis by (simp add: next_channel_def)
next
  case False
  then have "unat c \<noteq> 320" by (simp add: word_unat_eq_iff)
  with assms have "unat c < 320" by simp
  then have "unat (c + 1) \<le> 320" by (simp add: unat_word_ariths)
  then have "\<not> c + 1 > 320" by (simp add: word_less_nat_alt)
  with False show ?thesis by (simp add: next_channel_def Let_def)
qed

lemma next_channel_bound: "unat (next_channel c) \<le> 320"
  by (auto simp add: next_channel_def Let_def word_less_nat_alt)

lemma tuned_state_fields:
  "length (shadow (tuned_state c)) = 32"
  "get_shadow_reg (shadow (tuned_state c)) REGISTER_03 = c"
  "eeprom (tuned_state c) = blank_eeprom"
  "trace (tuned_state c) = []"
  by (simp_all add: tuned_state_def boot_state_def shadow_set_def get_set_shadow_reg
      length_set_shadow_reg)


text \<open>
  C3, as amended. For every channel in 0 .. 320 held in shadow register 0x3, a short press
  (the button released at one of the first 2000 samples) leaves a channel in 0 .. 320 there:
  the starting channel plus one, except that 320, the top of the band, wraps to 0.
\<close>

theorem short_press_channel_in_band:
  assumes "length (shadow st) = 32"
    and "get_shadow_reg (shadow st) REGISTER_03 = c"
    and "unat c \<le> 320"
    and "k < 2000"
  shows "\<exists>st'. handleButtonDown (replicate k True @ False # False # rest) st = Some (rest, st') \<and>
           get_shadow_reg (shadow st') REGISTER_03 = (if c = 320 then 0 else c + 1) \<and>
           unat (get_shadow_reg (shadow st') REGISTER_03) \<le> 320"
proof -
  let ?s = "(delay_ms 1 ^^ k) (delay_ms 50 (setLEDBrightness 0 st))"
  let ?st' = "delay_ms 50 (short_press c ?s)"
  have run: "handleButtonDown (replicate k True @ False # False # rest) st = Some (rest, ?st')"
    using handleButtonDown_short [OF assms(4), of "False # rest" st] assms(2) by simp
  have "shadow ?st' =
      set_shadow_reg (set_shadow_reg (shadow st) REGISTER_03 0x81ff) REGISTER_03 (next_channel c)"
    by (simp add: short_press_def shadow_tune_direct pre_press_fields)
  then have "get_shadow_reg (shadow ?st') REGISTER_03 = next_channel c"
    using assms(1) by (simp add: get_set_shadow_reg length_set_shadow_reg)
  with run next_channel_cases [OF assms(3)] next_channel_bound [of c] show ?thesis
    by auto
qed


text \<open>The wrap at the top of the band: from 320 a short press tunes to 0.\<close>

theorem short_press_channel_in_band_witness:
  "length (shadow (tuned_state 320)) = 32 \<and>
   get_shadow_reg (shadow (tuned_state 320)) REGISTER_03 = 320 \<and>
   unat (320 :: 16 word) \<le> 320 \<and> (0 :: nat) < 2000 \<and>
   (\<exists>st'. handleButtonDown [False, False] (tuned_state 320) = Some ([], st') \<and>
          get_shadow_reg (shadow st') REGISTER_03 = 0 \<and>
          unat (get_shadow_reg (shadow st') REGISTER_03) \<le> 320)"
proof -
  have a: "length (shadow (tuned_state 320)) = 32"
    by (simp add: tuned_state_def boot_state_def shadow_set_def length_set_shadow_reg)
  have b: "get_shadow_reg (shadow (tuned_state 320)) REGISTER_03 = 320"
    by (simp add: tuned_state_def boot_state_def shadow_set_def get_set_shadow_reg)
  have c: "unat (320 :: 16 word) \<le> 320" by simp
  have d: "(0 :: nat) < 2000" by simp
  from short_press_channel_in_band [OF a b c d, of "[]"] a b show ?thesis by simp
qed


text \<open>C3 as stated, with the range 0 .. 319, fails at 319: the short press yields 320.\<close>

theorem short_press_leaves_band_319:
  "unat (319 :: 16 word) \<le> 319 \<and>
   next_channel 319 = 320 \<and>
   map_option ((\<lambda>sh. get_shadow_reg sh REGISTER_03) \<circ> shadow \<circ> snd)
     (handleButtonDown [False, False] (tuned_state 319)) = Some 320 \<and>
   \<not> unat (320 :: 16 word) \<le> 319"
  by code_simp


text \<open>
  C2. A short press from channel 50: \<^verbatim>\<open>tune_direct(51)\<close> first transmits registers 0x2 and
  0x3 with 0x81FF in register 0x3 (tune bit with channel 0x1FF, not 0x8000 | 51 = 0x8033),
  then transmits them again with 51 in register 0x3. No EEPROM write is among the events.
\<close>

theorem short_press_tunes_to_0x1ff:
  "map_option (trace \<circ> snd) (handleButtonDown [False, False] (tuned_state 50)) =
     Some [PwmOff, DelayMs 50, TwiWrite [0, 0, 0x81, 0xFF], DelayMs 160,
           TwiWrite [0, 0, 0, 51], DelayMs 50] \<and>
   [0x81, 0xFF] \<noteq> [ucast (drop_bit 8 (0x8000 OR 51 :: 16 word)), ucast (0x8000 OR 51 :: 16 word) :: 8 word]"
  by code_simp


text \<open>
  C6. When the button has been down at all 2000 samples the countdown is zero; the loop
  then ends on the countdown test without sampling the pin again, whatever its level \<open>b\<close>
  is by then. With the button released at that moment the handler performs the save and
  not the scan: after the 2000 one-millisecond waits come the full-brightness flash with
  the two EEPROM writes of \<^verbatim>\<open>update_channel\<close> (the channel read from shadow register 0x3
  on entry, then the CRC of the block), no TWI transfer is among the events, the EEPROM
  holds the channel and the new CRC, and the shadow registers are unchanged.
\<close>

theorem long_press_tie_break:
  "timing_loop 0 (b # rest) st = Some (0, b # rest, st) \<and>
   timing_loop LONG_PRESS_MS (replicate 2000 True @ b # rest) st =
     Some (0, b # rest, (delay_ms 1 ^^ 2000) st) \<and>
   (\<exists>st'. handleButtonDown (replicate 2000 True @ False # rest) st = Some (rest, st') \<and>
      trace st' = trace st @ [PwmOff, DelayMs 50] @ replicate 2000 (DelayMs 1) @
        [Ocr1b 255, PwmOn,
         EepromWriteWord EEPROM_CHANNEL (get_shadow_reg (shadow st) REGISTER_03),
         EepromWriteWord EEPROM_CRC16
           (crc_bytes
              (eeprom_write_word (eeprom st) EEPROM_CHANNEL (get_shadow_reg (shadow st) REGISTER_03))
              [EEPROM_WORKING ..< EEPROM_CRC16] 0),
         DelayMs 500, PwmOff, DelayMs 50] \<and>
      eeprom st' =
        eeprom_write_word
          (eeprom_write_word (eeprom st) EEPROM_CHANNEL (get_shadow_reg (shadow st) REGISTER_03))
          EEPROM_CRC16
          (crc_bytes
             (eeprom_write_word (eeprom st) EEPROM_CHANNEL (get_shadow_reg (shadow st) REGISTER_03))
             [EEPROM_WORKING ..< EEPROM_CRC16] 0) \<and>
      shadow st' = shadow st)"
proof -
  let ?c = "get_shadow_reg (shadow st) REGISTER_03"
  let ?s = "(delay_ms 1 ^^ 2000) (delay_ms 50 (setLEDBrightness 0 st))"
  let ?st' = "delay_ms 50 (long_press ?c ?s)"
  have zero: "timing_loop 0 (b # rest) st = Some (0, b # rest, st)"
    by (rule timing_loop_zero)
  have loop: "timing_loop LONG_PRESS_MS (replicate 2000 True @ b # rest) st =
      Some (0, b # rest, (delay_ms 1 ^^ 2000) st)"
    using timing_loop_down [of 2000 LONG_PRESS_MS "b # rest" st]
    by (simp add: LONG_PRESS_MS_def)
  have wr: "wait_release (False # rest) = Some rest"
    by simp
  have run: "handleButtonDown (replicate 2000 True @ False # rest) st = Some (rest, ?st')"
    unfolding handleButtonDown_long wr by (simp only: option.case)
  have tr: "trace ?st' = trace st @ [PwmOff, DelayMs 50] @ replicate 2000 (DelayMs 1) @
        [Ocr1b 255, PwmOn, EepromWriteWord EEPROM_CHANNEL ?c,
         EepromWriteWord EEPROM_CRC16
           (crc_bytes (eeprom_write_word (eeprom st) EEPROM_CHANNEL ?c)
              [EEPROM_WORKING ..< EEPROM_CRC16] 0),
         DelayMs 500, PwmOff, DelayMs 50]"
    by (rule long_press_result_trace)
  have ee: "eeprom ?st' =
      eeprom_write_word (eeprom_write_word (eeprom st) EEPROM_CHANNEL ?c) EEPROM_CRC16
        (crc_bytes (eeprom_write_word (eeprom st) EEPROM_CHANNEL ?c)
           [EEPROM_WORKING ..< EEPROM_CRC16] 0)"
    by (simp add: delay_ms_fields eeprom_long_press eeprom_update_channel pre_press_fields)
  have sh: "shadow ?st' = shadow st"
    by (simp add: delay_ms_fields shadow_long_press pre_press_fields)
  from run tr ee sh have "\<exists>st'. handleButtonDown (replicate 2000 True @ False # rest) st = Some (rest, st') \<and>
      trace st' = trace st @ [PwmOff, DelayMs 50] @ replicate 2000 (DelayMs 1) @
        [Ocr1b 255, PwmOn, EepromWriteWord EEPROM_CHANNEL ?c,
         EepromWriteWord EEPROM_CRC16
           (crc_bytes (eeprom_write_word (eeprom st) EEPROM_CHANNEL ?c)
              [EEPROM_WORKING ..< EEPROM_CRC16] 0),
         DelayMs 500, PwmOff, DelayMs 50] \<and>
      eeprom st' =
        eeprom_write_word (eeprom_write_word (eeprom st) EEPROM_CHANNEL ?c) EEPROM_CRC16
          (crc_bytes (eeprom_write_word (eeprom st) EEPROM_CHANNEL ?c)
             [EEPROM_WORKING ..< EEPROM_CRC16] 0) \<and>
      shadow st' = shadow st"
    by blast
  with zero loop show ?thesis by blast
qed


text \<open>
  C7, as amended. A long press (the button down for the 2000 samples of the countdown and
  for any \<open>j\<close> samples more) switches the LED to full brightness, then stores with
  \<^verbatim>\<open>update_channel\<close> exactly the value read from shadow register 0x3 on entry, then
  waits 500 ms and switches the LED off; the shadow registers are unchanged.
\<close>

theorem long_press_saves_entry_channel:
  "\<exists>st'. handleButtonDown (replicate 2000 True @ replicate j True @ False # rest) st =
            Some (rest, st') \<and>
     trace st' = trace st @ [PwmOff, DelayMs 50] @ replicate 2000 (DelayMs 1) @
       [Ocr1b 255, PwmOn,
        EepromWriteWord EEPROM_CHANNEL (currentChanFromShadow st),
        EepromWriteWord EEPROM_CRC16 (eeprom_read_word (eeprom st') EEPROM_CRC16),
        DelayMs 500, PwmOff, DelayMs 50] \<and>
     eeprom st' = eeprom (update_channel (currentChanFromShadow st) st) \<and>
     eeprom_read_word (eeprom st') EEPROM_CHANNEL = currentChanFromShadow st \<and>
     currentChanFromShadow st = get_shadow_reg (shadow st) REGISTER_03 \<and>
     shadow st' = shadow st"
proof -
  let ?c = "get_shadow_reg (shadow st) REGISTER_03"
  let ?s = "(delay_ms 1 ^^ 2000) (delay_ms 50 (setLEDBrightness 0 st))"
  let ?st' = "delay_ms 50 (long_press ?c ?s)"
  have run: "handleButtonDown (replicate 2000 True @ replicate j True @ False # rest) st =
      Some (rest, ?st')"
    by (simp add: handleButtonDown_long wait_release_held)
  have ee: "eeprom ?st' = eeprom (update_channel ?c st)"
    by (simp add: delay_ms_fields eeprom_long_press eeprom_update_channel pre_press_fields)
  have crc: "eeprom_read_word (eeprom ?st') EEPROM_CRC16 =
      crc_bytes (eeprom_write_word (eeprom st) EEPROM_CHANNEL ?c) [EEPROM_WORKING ..< EEPROM_CRC16] 0"
    unfolding ee by (simp add: eeprom_update_channel eeprom_read_write_word)
  have tr: "trace ?st' = trace st @ [PwmOff, DelayMs 50] @ replicate 2000 (DelayMs 1) @
       [Ocr1b 255, PwmOn, EepromWriteWord EEPROM_CHANNEL ?c,
        EepromWriteWord EEPROM_CRC16 (eeprom_read_word (eeprom ?st') EEPROM_CRC16),
        DelayMs 500, PwmOff, DelayMs 50]"
    unfolding crc by (simp add: delay_ms_fields trace_long_press pre_press_fields)
  have ch: "eeprom_read_word (eeprom ?st') EEPROM_CHANNEL = ?c"
    unfolding ee by (simp add: eeprom_channel_after_update)
  have sh: "shadow ?st' = shadow st"
    by (simp add: delay_ms_fields shadow_long_press pre_press_fields)
  from run tr ee ch sh show ?thesis
    unfolding currentChanFromShadow_reg03 by blast
qed


text \<open>C7 as stated has the save after the confirmation flash. In the run from channel 51
  the two EEPROM writes come between the switch to full brightness and the 500 ms wait
  that ends the flash.\<close>

theorem long_press_saves_during_flash:
  "map_option (trace \<circ> snd)
     (handleButtonDown (replicate 2000 True @ [False]) (tuned_state 51)) =
   Some ([PwmOff, DelayMs 50] @ replicate 2000 (DelayMs 1) @
         [Ocr1b 255, PwmOn, EepromWriteWord 3 51, EepromWriteWord 14 17648,
          DelayMs 500, PwmOff, DelayMs 50])"
proof -
  let ?st' = "delay_ms 50 (long_press 51 ((delay_ms 1 ^^ 2000) (delay_ms 50 (setLEDBrightness 0 (tuned_state 51)))))"
  have run: "handleButtonDown (replicate 2000 True @ [False]) (tuned_state 51) = Some ([], ?st')"
    unfolding handleButtonDown_long tuned_state_fields
    by (simp only: wait_release.simps if_False option.case)
  have tr: "trace ?st' = [PwmOff, DelayMs 50] @ replicate 2000 (DelayMs 1) @
         [Ocr1b 255, PwmOn, EepromWriteWord 3 51, EepromWriteWord 14 17648,
          DelayMs 500, PwmOff, DelayMs 50]"
    unfolding long_press_result_trace tuned_state_fields crc_51
    unfolding EEPROM_CHANNEL_def EEPROM_CRC16_def by (rule append_Nil)
  show ?thesis
    unfolding run by (simp only: option.map comp_apply snd_conv tr)
qed


subsection \<open>Programming packets\<close>

text \<open>A received byte, as the \<^verbatim>\<open>int\<close> that \<^verbatim>\<open>readPbyte\<close> returns, is not negative, and
  its low eight bits are the byte.\<close>

lemma byte_not_negative: "\<not> (ucast (b :: 8 word) :: 16 word) <s 0"
proof -
  have "\<not> bit (ucast b :: 16 word) 15"
    by (auto simp add: bit_simps dest: bit_imp_le_length)
  then have "\<not> sint (ucast b :: 16 word) < 0"
    by (simp add: bit_last_iff [symmetric])
  then show ?thesis
    by (simp add: word_sless_alt)
qed

lemma byte_of_int: "(ucast (ucast (b :: 8 word) :: 16 word) :: 8 word) = b"
  by (rule bit_word_eqI) (simp add: bit_simps)

lemma debugBlink_fields:
  "eeprom (debugBlink n st) = eeprom st"
  "shadow (debugBlink n st) = shadow st"
proof -
  have "eeprom ((debugBlink_once ^^ k) st) = eeprom st \<and> shadow ((debugBlink_once ^^ k) st) = shadow st" for k
    by (induction k) (simp_all add: debugBlink_once_def state_ops)
  then show "eeprom (debugBlink n st) = eeprom st" "shadow (debugBlink n st) = shadow st"
    by (simp_all add: debugBlink_def state_ops)
qed

lemma trace_debugBlink_1:
  "trace (debugBlink 1 st) =
     trace st @ [LedPin True, DelayMs 10, LedPin False, DelayMs 200, DelayMs 1000]"
  by (simp add: debugBlink_def debugBlink_once_def state_ops)

lemma trace_debugBlink_2:
  "trace (debugBlink 2 st) =
     trace st @ [LedPin True, DelayMs 10, LedPin False, DelayMs 200,
                 LedPin True, DelayMs 10, LedPin False, DelayMs 200, DelayMs 1000]"
proof -
  have "(debugBlink_once ^^ 2) st = debugBlink_once (debugBlink_once st)"
    by (simp add: numeral_2_eq_2)
  then show ?thesis by (simp add: debugBlink_def debugBlink_once_def state_ops)
qed

lemma trace_update_channel:
  "trace (update_channel channel st) =
     trace st @ [EepromWriteWord EEPROM_CHANNEL channel,
                 EepromWriteWord EEPROM_CRC16
                   (crc_bytes (eeprom_write_word (eeprom st) EEPROM_CHANNEL channel)
                      [EEPROM_WORKING ..< EEPROM_CRC16] 0)]"
  by (simp add: update_channel_def state_ops Let_def)


text \<open>
  C5. A packet of four bytes \<open>b1 b2 c1 c2\<close>: when the CRC computed over \<open>b1\<close>, \<open>b2\<close> with
  \<^verbatim>\<open>_crc16_update\<close> differs from the received \<open>c1 c2\<close> (high byte first), the function
  returns -1 after one blink and the EEPROM is as before, with no EEPROM write among the
  events; when they agree it returns 0 and the events hold the two EEPROM writes of one
  \<^verbatim>\<open>update_channel\<close> call with the channel \<open>b1 b2\<close>, followed by two blinks.
\<close>

theorem programming_packet_crc_gate:
  "readProgrammingPacket (ucast b1 # ucast b2 # ucast (c1 :: 8 word) # ucast (c2 :: 8 word) # rest) st =
     (if crc16_update (crc16_update 0 b1) b2 \<noteq> push_bit 8 (ucast c1) OR ucast c2
      then Some (- 1, rest, debugBlink 1 st)
      else Some (0, rest,
             debugBlink 2 (update_channel (push_bit 8 (ucast b1) OR ucast b2) (delay_ms 50 st)))) \<and>
   eeprom (debugBlink 1 st) = eeprom st \<and>
   trace (debugBlink 1 st) =
     trace st @ [LedPin True, DelayMs 10, LedPin False, DelayMs 200, DelayMs 1000] \<and>
   eeprom (debugBlink 2 (update_channel chan (delay_ms 50 st))) = eeprom (update_channel chan st) \<and>
   trace (debugBlink 2 (update_channel chan (delay_ms 50 st))) =
     trace st @ [DelayMs 50, EepromWriteWord EEPROM_CHANNEL chan,
       EepromWriteWord EEPROM_CRC16
         (crc_bytes (eeprom_write_word (eeprom st) EEPROM_CHANNEL chan)
            [EEPROM_WORKING ..< EEPROM_CRC16] 0),
       LedPin True, DelayMs 10, LedPin False, DelayMs 200,
       LedPin True, DelayMs 10, LedPin False, DelayMs 200, DelayMs 1000]"
proof -
  have run: "readProgrammingPacket (ucast b1 # ucast b2 # ucast (c1 :: 8 word) # ucast (c2 :: 8 word) # rest) st =
     (if crc16_update (crc16_update 0 b1) b2 \<noteq> push_bit 8 (ucast c1) OR ucast c2
      then Some (- 1, rest, debugBlink 1 st)
      else Some (0, rest,
             debugBlink 2 (update_channel (push_bit 8 (ucast b1) OR ucast b2) (delay_ms 50 st))))"
    by (simp add: readProgrammingPacket_def byte_not_negative byte_of_int Let_def)
  have ee: "eeprom (debugBlink 2 (update_channel chan (delay_ms 50 st))) = eeprom (update_channel chan st)"
    by (simp add: debugBlink_fields eeprom_update_channel delay_ms_fields)
  have tr: "trace (debugBlink 2 (update_channel chan (delay_ms 50 st))) =
     trace st @ [DelayMs 50, EepromWriteWord EEPROM_CHANNEL chan,
       EepromWriteWord EEPROM_CRC16
         (crc_bytes (eeprom_write_word (eeprom st) EEPROM_CHANNEL chan)
            [EEPROM_WORKING ..< EEPROM_CRC16] 0),
       LedPin True, DelayMs 10, LedPin False, DelayMs 200,
       LedPin True, DelayMs 10, LedPin False, DelayMs 200, DelayMs 1000]"
    by (simp add: trace_debugBlink_2 trace_update_channel delay_ms_fields)
  from run ee tr show ?thesis
    by (simp only: debugBlink_fields trace_debugBlink_1 simp_thms)
qed


text \<open>
  C10. If one of the four reads returns a negative value \<open>d\<close> (after fewer than four reads
  that did not), \<^verbatim>\<open>readProgrammingPacket\<close> returns \<open>d\<close> and the whole state, the EEPROM
  and the trace of events included, is as before the call.
\<close>

theorem read_error_leaves_block:
  assumes "length ok < 4" and "\<forall>x \<in> set ok. \<not> x <s 0" and "d <s 0"
  shows "readProgrammingPacket (ok @ d # rest) st = Some (d, rest, st)"
proof -
  have "length ok = 0 \<or> length ok = 1 \<or> length ok = 2 \<or> length ok = 3"
    using assms(1) by arith
  then consider (0) "ok = []" | (1) a where "ok = [a]" | (2) a b where "ok = [a, b]"
    | (3) a b c where "ok = [a, b, c]"
    by (auto simp add: length_Suc_conv numeral_2_eq_2 numeral_3_eq_3)
  then show ?thesis
  proof cases
    case 0
    with assms show ?thesis by (simp add: readProgrammingPacket_def)
  next
    case 1
    with assms show ?thesis by (simp add: readProgrammingPacket_def Let_def)
  next
    case 2
    with assms show ?thesis by (simp add: readProgrammingPacket_def Let_def)
  next
    case 3
    with assms show ?thesis by (simp add: readProgrammingPacket_def Let_def)
  qed
qed


text \<open>One good byte, then an error: the result is the error value, the state untouched.\<close>

theorem read_error_leaves_block_witness:
  "length [0x12 :: 16 word] < 4 \<and> \<not> (0x12 :: 16 word) <s 0 \<and> (- 1 :: 16 word) <s 0 \<and>
   readProgrammingPacket [0x12, - 1] (boot_state blank_eeprom) =
     Some (- 1, [], boot_state blank_eeprom)"
proof -
  have a: "length [0x12 :: 16 word] < 4" by simp
  have b': "\<not> (0x12 :: 16 word) <s 0" by (simp add: word_sless_alt)
  then have b: "\<forall>x \<in> set [0x12 :: 16 word]. \<not> x <s 0" by simp
  have c: "(- 1 :: 16 word) <s 0" by (simp add: word_sless_alt)
  have "readProgrammingPacket ([0x12] @ (- 1) # []) (boot_state blank_eeprom) =
      Some (- 1, [], boot_state blank_eeprom)"
    by (rule read_error_leaves_block [OF a b c])
  then have "readProgrammingPacket [0x12, - 1] (boot_state blank_eeprom) =
      Some (- 1, [], boot_state blank_eeprom)"
    by (simp only: append_Cons append_Nil)
  with a b' c show ?thesis by blast
qed

subsection \<open>Boot\<close>

text \<open>\<^verbatim>\<open>shutDown\<close> does nothing, so the CRC check at boot changes nothing.\<close>

lemma check_and_init_eq: "check_and_init st = si4702_init st"
  by (simp add: check_and_init_def shutDown_def)

lemma bad_crc_eeprom_check:
  "check_param_crc bad_crc_eeprom EEPROM_WORKING = 0xC0C1"
  "crc_bytes bad_crc_eeprom [EEPROM_WORKING ..< EEPROM_CRC16] 0 = 0"
  "eeprom_read_word bad_crc_eeprom EEPROM_CRC16 = 0x0100"
proof -
  show "check_param_crc bad_crc_eeprom EEPROM_WORKING = 0xC0C1"
    apply (simp add: crc_unroll bad_crc_eeprom_def)
    apply (simp add: crc_eval)
    done
  show "crc_bytes bad_crc_eeprom [EEPROM_WORKING ..< EEPROM_CRC16] 0 = 0"
    apply (simp add: crc_unroll bad_crc_eeprom_def)
    apply (simp add: crc_eval)
    done
  show "eeprom_read_word bad_crc_eeprom EEPROM_CRC16 = 0x0100"
    by (simp add: eeprom_read_word_def bad_crc_eeprom_def blank_eeprom_def EEPROM_CRC16_def)
qed


text \<open>
  C1. Boot with a good battery, no programming voltage, the button up, and a working
  block whose stored CRC (0x0100) differs from the CRC of its first 14 bytes (0):
  \<^verbatim>\<open>check_param_crc\<close> returns 0xC0C1, yet the program goes through \<^verbatim>\<open>si4702_init\<close>
  with all its TWI writes, and there is neither a blink sequence nor a sleep among the
  events.
\<close>

theorem boot_ignores_bad_crc:
  "check_param_crc bad_crc_eeprom EEPROM_WORKING = 0xC0C1 \<and>
   crc_bytes bad_crc_eeprom [EEPROM_WORKING ..< EEPROM_CRC16] 0 = 0 \<and>
   eeprom_read_word bad_crc_eeprom EEPROM_CRC16 = 0x0100 \<and>
   main True False [False] (boot_state bad_crc_eeprom) =
     Some ([], Running (si4702_init (emit ButtonIntOn (LED_PWM_on (boot_state bad_crc_eeprom))))) \<and>
   trace (si4702_init (emit ButtonIntOn (LED_PWM_on (boot_state bad_crc_eeprom)))) =
     [PwmOn, ButtonIntOn, ResetHigh, DelayMs 1, TwiInit,
      TwiWrite [0, 0, 0, 0, 0, 0, 0, 0, 0, 0, 0x81, 0], DelayMs 600,
      TwiWrite [0, 2], DelayMs 110, TwiWrite [0, 2, 0, 0, 0, 0, 0, 0],
      DebugByte 0, DebugByte 0, TwiWrite [0, 2, 0x80, 0], DelayMs 100,
      TwiWrite [0x40, 0x0F, 0, 0]] \<and>
   shutDown DIAGNOSTIC_BLINK_BADEEPROM (boot_state bad_crc_eeprom) = boot_state bad_crc_eeprom"
proof -
  have run: "main True False [False] (boot_state bad_crc_eeprom) =
     Some ([], Running (si4702_init (emit ButtonIntOn (LED_PWM_on (boot_state bad_crc_eeprom)))))"
    by (simp add: main_def check_and_init_eq Let_def)
  have tr: "trace (si4702_init (emit ButtonIntOn (LED_PWM_on (boot_state bad_crc_eeprom)))) =
     [PwmOn, ButtonIntOn, ResetHigh, DelayMs 1, TwiInit,
      TwiWrite [0, 0, 0, 0, 0, 0, 0, 0, 0, 0, 0x81, 0], DelayMs 600,
      TwiWrite [0, 2], DelayMs 110, TwiWrite [0, 2, 0, 0, 0, 0, 0, 0],
      DebugByte 0, DebugByte 0, TwiWrite [0, 2, 0x80, 0], DelayMs 100,
      TwiWrite [0x40, 0x0F, 0, 0]]"
    by code_simp
  have sd: "shutDown DIAGNOSTIC_BLINK_BADEEPROM (boot_state bad_crc_eeprom) = boot_state bad_crc_eeprom"
    by (simp add: shutDown_def)
  from run tr sd bad_crc_eeprom_check show ?thesis
    by (simp only: simp_thms)
qed


text \<open>
  C9. The value stored to register 0x2 for the unmute is 0x400F (bits 14, 3, 2, 1, 0), not
  0x6002 (bits 14, 13, 1): the mono bit number is or-ed in without \<^verbatim>\<open>_BV\<close>. After
  \<^verbatim>\<open>si4702_init\<close> the shadow register holds it, and the last TWI write carries it.
\<close>

theorem init_unmute_value:
  "unmute_value = 0x400F \<and>
   BV REG_02_DMUTE_BIT OR BV REG_02_MONO_BIT OR BV REG_02_ENABLE_BIT = 0x6002 \<and>
   get_shadow_reg (shadow (si4702_init (boot_state blank_eeprom))) REGISTER_02 = 0x400F \<and>
   last (trace (si4702_init (boot_state blank_eeprom))) = TwiWrite [0x40, 0x0F, 0, 0]"
  by code_simp


end
